theory Spec2Isabelle
  imports
    Complex_Main
    "HOL-Library.Option_ord"
    "HOL-Library.Char_ord"
    "HOL-Library.List_Lexorder"
begin

section \<open>Device registry (module constants of newscale.py)\<close>

text \<open>
  The three ways \<open>get_newscale_coordinates\<close> and its helpers can fail:
  \<^item> \<open>NoCoverageError\<close>: the \<open>IndexError\<close> raised by the date-coverage check;
  \<^item> \<open>MalformedLogError\<close>: the error of a strict polars cast of a text column to a float;
  \<^item> \<open>UnknownDeviceError\<close>: the \<open>ValueError\<close> raised by \<open>get_z_travel\<close>.
\<close>

datatype error = NoCoverageError | MalformedLogError | UnknownDeviceError

text \<open>
  \<open>SERIAL_NUM_TO_PROBE_LETTER\<close> is the union \<open>|\<close> of four dict literals; \<open>++\<close> is
  right-biased as the dict union is.
\<close>

definition SERIAL_NUM_TO_PROBE_LETTER :: "string \<rightharpoonup> string" where
  "SERIAL_NUM_TO_PROBE_LETTER =
     map_of [(''SN32148'', ''A''), (''SN32142'', ''B''), (''SN32144'', ''C''),
             (''SN32149'', ''D''), (''SN24272'', ''D''), (''SN32135'', ''E''),
             (''SN24273'', ''F'')]
     ++ map_of [(''SN40911'', ''A''), (''SN40900'', ''B''), (''SN40912'', ''C''),
                (''SN40913'', ''D''), (''SN40914'', ''E''), (''SN40910'', ''F'')]
     ++ map_of [(''SN45356'', ''A''), (''SN45484'', ''B''), (''SN45485'', ''C''),
                (''SN45359'', ''D''), (''SN45482'', ''E''), (''SN45361'', ''F'')]
     ++ map_of [(''SN40906'', ''A''), (''SN40908'', ''B''), (''SN40907'', ''C''),
                (''SN41084'', ''D''), (''SN40903'', ''E''), (''SN40902'', ''F'')]"

definition SHORT_TRAVEL_SERIAL_NUMBERS :: "string set" where
  "SHORT_TRAVEL_SERIAL_NUMBERS =
     {''SN32148'', ''SN32142'', ''SN32144'', ''SN32149'', ''SN32135'', ''SN24273''}"

definition SHORT_TRAVEL_RANGE :: int where
  "SHORT_TRAVEL_RANGE = 6000"

definition LONG_TRAVEL_RANGE :: int where
  "LONG_TRAVEL_RANGE = 15000"

definition get_z_travel :: "string \<Rightarrow> error + int" where
  "get_z_travel serial_number =
     (if serial_number \<notin> dom SERIAL_NUM_TO_PROBE_LETTER then Inl UnknownDeviceError
      else if serial_number \<in> SHORT_TRAVEL_SERIAL_NUMBERS then Inr SHORT_TRAVEL_RANGE
      else Inr LONG_TRAVEL_RANGE)"

section \<open>Axis inversion detector\<close>

text \<open>
  Readings are floating-point numbers in the source; they are modelled by the rational
  numbers they denote (no NaN, no infinity, no rounding error of the division).
  \<open>rint\<close> is numpy's rounding to the nearest integer, halves going to the even neighbour.
  \<open>np_round v d\<close> is \<open>np.round(v, d)\<close>: for a negative number of decimals numpy
  divides by the power of ten, rounds with \<open>rint\<close> and multiplies back.
\<close>

definition rint :: "rat \<Rightarrow> int" where
  "rint q =
     (let f = \<lfloor>q\<rfloor>; d = q - of_int f
      in if d < 1 / 2 then f
         else if 1 / 2 < d then f + 1
         else if even f then f else f + 1)"

definition np_round :: "rat \<Rightarrow> int \<Rightarrow> rat" where
  "np_round v decimals =
     (if 0 \<le> decimals
      then of_int (rint (v * 10 ^ nat decimals)) / 10 ^ nat decimals
      else of_int (rint (v / 10 ^ nat (- decimals))) * 10 ^ nat (- decimals))"

text \<open>\<open>collections.Counter\<close>: a key that was never counted reads as 0.\<close>

definition Counter :: "'a list \<Rightarrow> 'a \<Rightarrow> nat" where
  "Counter xs k = count_list xs k"

definition is_z_inverted :: "rat list \<Rightarrow> bool" where
  "is_z_inverted z_values =
     (let c = Counter (map (\<lambda>v. np_round v (- 2)) z_values);
          is_long_travel = (c (of_int LONG_TRAVEL_RANGE) \<noteq> 0);
          travel_range = (if is_long_travel then LONG_TRAVEL_RANGE else SHORT_TRAVEL_RANGE)
      in c 0 < c (of_int travel_range))"

section \<open>The movement log\<close>

text \<open>
  One row of the data frame. The coordinate columns \<open>x\<close>, \<open>y\<close>, \<open>z\<close> hold text when
  the log is read and numbers after the cast, so the row type is polymorphic in them.
  \<open>last_movement_dt\<close> is a polars \<open>Datetime\<close>: microseconds since the epoch, or null
  (\<open>None\<close>) where the text of the log did not parse as a date. The text columns of a row
  whose timestamp is not null are taken to be non-null.
\<close>

record 'c Row =
  last_movement_dt :: "int option"
  device_name :: string
  x_col :: 'c
  y_col :: 'c
  z_col :: 'c

record MovementEvent = "string Row" +
  x_virtual :: string
  y_virtual :: string
  z_virtual :: string

record ResolvedPosition = "rat Row" +
  electrode_group_name :: string
  last_movement_time :: "int option"

text \<open>\<open>.dt.date()\<close>: the day a timestamp falls on, as days since the epoch.\<close>

definition date :: "int \<Rightarrow> int" where
  "date t = t div 86400000000"

text \<open>
  \<open>.dt.total_seconds()\<close> of a duration in microseconds: whole seconds, the fraction
  dropped towards zero.
\<close>

definition total_seconds :: "int \<Rightarrow> int" where
  "total_seconds d = sgn d * (\<bar>d\<bar> div 1000000)"

text \<open>
  A text is the sequence of the bytes of its UTF-8 encoding. \<open>.str.strip_chars()\<close>
  without argument removes, at both ends, every character with the Unicode property
  \<open>White_Space\<close>: U+0009 to U+000D, U+0020, U+0085, U+00A0, U+1680, U+2000 to U+200A,
  U+2028, U+2029, U+202F, U+205F and U+3000. \<open>white_space\<close> lists their encodings.
\<close>

definition white_space :: "string list" where
  "white_space =
     [[CHR 0x09], [CHR 0x0A], [CHR 0x0B], [CHR 0x0C], [CHR 0x0D], [CHR 0x20],
      [CHR 0xC2, CHR 0x85], [CHR 0xC2, CHR 0xA0], [CHR 0xE1, CHR 0x9A, CHR 0x80]]
     @ map (\<lambda>b. [CHR 0xE2, CHR 0x80, b])
         [CHR 0x80, CHR 0x81, CHR 0x82, CHR 0x83, CHR 0x84, CHR 0x85, CHR 0x86, CHR 0x87,
          CHR 0x88, CHR 0x89, CHR 0x8A, CHR 0xA8, CHR 0xA9, CHR 0xAF]
     @ [[CHR 0xE2, CHR 0x81, CHR 0x9F], [CHR 0xE3, CHR 0x80, CHR 0x80]]"

text \<open>\<open>trim_start ws s\<close> removes from the front of \<open>s\<close> every leading occurrence of a member of \<open>ws\<close>.\<close>

function trim_start :: "string list \<Rightarrow> string \<Rightarrow> string" where
  "trim_start ws s =
     (case find (\<lambda>w. w \<noteq> [] \<and> take (length w) s = w) ws of
        None \<Rightarrow> s
      | Some w \<Rightarrow> trim_start ws (drop (length w) s))"
  by pat_completeness auto
termination
proof (relation "measure (\<lambda>(ws, s). length s)")
  show "wf (measure (\<lambda>(ws, s). length s))"
    by simp
next
  fix ws :: "string list" and s w :: string
  assume "find (\<lambda>w. w \<noteq> [] \<and> take (length w) s = w) ws = Some w"
  then have w: "w \<noteq> []" "take (length w) s = w"
    by (auto simp: find_Some_iff)
  from w(2) have "length (take (length w) s) = length w"
    by simp
  then have "length w \<le> length s"
    by (simp add: min_def split: if_splits)
  with w(1) have "length s - length w < length s"
    by (cases w) simp_all
  then show "((ws, drop (length w) s), (ws, s)) \<in> measure (\<lambda>(ws, s). length s)"
    by simp
qed

declare trim_start.simps [simp del]

definition strip_chars :: "string \<Rightarrow> string" where
  "strip_chars s = rev (trim_start (map rev white_space) (rev (trim_start white_space s)))"

text \<open>
  A Python loop or a strict polars cast over a column stops at the first element that
  raises.
\<close>

primrec try_map :: "('a \<Rightarrow> error + 'b) \<Rightarrow> 'a list \<Rightarrow> error + 'b list" where
  "try_map f [] = Inr []"
| "try_map f (a # as) =
     (case f a of
        Inl e \<Rightarrow> Inl e
      | Inr b \<Rightarrow> (case try_map f as of Inl e \<Rightarrow> Inl e | Inr bs \<Rightarrow> Inr (b # bs)))"

text \<open>
  \<open>.str.strip_chars().cast(pl.Float32)\<close> and \<open>.str.strip_chars().cast(pl.Float64)\<close>.
  The reading of a text as a number of a float type belongs to polars and is a parameter
  \<open>parse\<close> of the model: \<open>parse Float32 s\<close> is the value of the single-precision number
  polars reads from \<open>s\<close>, \<open>parse Float64 s\<close> that of the double-precision one, and
  \<open>None\<close> stands for a text that it does not read, on which the strict cast raises.
\<close>

datatype dtype = Float32 | Float64

definition cast :: "(dtype \<Rightarrow> string \<Rightarrow> rat option) \<Rightarrow> dtype \<Rightarrow> string \<Rightarrow> error + rat" where
  "cast parse dt s =
     (case parse dt (strip_chars s) of None \<Rightarrow> Inl MalformedLogError | Some v \<Rightarrow> Inr v)"

text \<open>
  A reader for the example logs. It reads an unsigned decimal integer that the float type
  holds exactly (up to \<open>2\<^sup>2\<^sup>4\<close> in single, \<open>2\<^sup>5\<^sup>3\<close> in double precision), where the cast
  of polars gives that integer, and nothing else.
\<close>

definition parse_digits :: "dtype \<Rightarrow> string \<Rightarrow> rat option" where
  "parse_digits dt s =
     (if s \<noteq> [] \<and> list_all (\<lambda>c. CHR ''0'' \<le> c \<and> c \<le> CHR ''9'') s
      then (let n = foldl (\<lambda>a c. 10 * a + (of_char c - 48)) (0 :: int) s
            in if n \<le> (case dt of Float32 \<Rightarrow> 16777216 | Float64 \<Rightarrow> 9007199254740992)
               then Some (of_int n) else None)
      else None)"

section \<open>Coordinate resolver\<close>

text \<open>The date-coverage check that guards \<open>get_newscale_coordinates\<close>.\<close>

definition covered :: "MovementEvent list \<Rightarrow> int \<Rightarrow> bool" where
  "covered df start =
     (\<not> (df = [] \<or> Some (date start) \<notin> set (map (map_option date \<circ> last_movement_dt) df)))"

text \<open>
  \<open>recent_df\<close>: the rows whose date is greater than \<open>start.dt.date() - timedelta(hours=24)\<close>,
  which for a Python date is the day before. A comparison with null drops the row.
\<close>

definition recent_df :: "MovementEvent list \<Rightarrow> int \<Rightarrow> MovementEvent list" where
  "recent_df df start =
     filter (\<lambda>e. case last_movement_dt e of None \<Rightarrow> False | Some t \<Rightarrow> date start - 1 < date t) df"

text \<open>\<open>df.filter(movement < start.dt)\<close>.\<close>

definition moved_before :: "int \<Rightarrow> ('c, 'm) Row_scheme \<Rightarrow> bool" where
  "moved_before start e = (case last_movement_dt e of None \<Rightarrow> False | Some t \<Rightarrow> t < start)"

text \<open>
  \<open>pl.all().sort_by(movement).last()\<close> on one group: a row of the group with the greatest
  timestamp (a null timestamp is below every other). Polars does not fix which one
  when several rows share that timestamp; the model takes the first of them in the order
  of the log.
\<close>

definition latest :: "'c Row list \<Rightarrow> 'c Row" where
  "latest g =
     hd (filter (\<lambda>r. list_all (\<lambda>r'. last_movement_dt r' \<le> last_movement_dt r) g) g)"

text \<open>
  \<open>.group_by(serial_number).agg(...)\<close>: one row per value of the \<open>device_name\<close> column
  as it stands in the log. Polars does not fix the order of the groups; the model takes
  them in the order of \<open>remdups\<close>.
\<close>

definition last_moved :: "'c Row list \<Rightarrow> 'c Row list" where
  "last_moved rows =
     map (\<lambda>k. latest (filter (\<lambda>r. device_name r = k) rows)) (remdups (map device_name rows))"

text \<open>\<open>.top_k(6, by=movement)\<close>: the \<open>k\<close> rows with the greatest timestamps.\<close>

definition top_k :: "nat \<Rightarrow> 'c Row list \<Rightarrow> 'c Row list" where
  "top_k k rows = take k (rev (sort_key last_movement_dt rows))"

definition temporal_selection :: "MovementEvent list \<Rightarrow> int \<Rightarrow> string Row list" where
  "temporal_selection df start =
     top_k 6 (last_moved (map Row.truncate (filter (moved_before start) df)))"

text \<open>The stripped \<open>device_name\<close> column replaces the original one.\<close>

definition strip_device_name :: "'c Row \<Rightarrow> 'c Row" where
  "strip_device_name r = r\<lparr>device_name := strip_chars (device_name r)\<rparr>"

text \<open>The loop over the coordinate columns left by the selection: \<open>x\<close>, \<open>y\<close>, \<open>z\<close>.\<close>

definition cast_coordinates ::
  "(dtype \<Rightarrow> string \<Rightarrow> rat option) \<Rightarrow> string Row \<Rightarrow> error + rat Row" where
  "cast_coordinates parse r =
     (case cast parse Float64 (x_col r) of Inl e \<Rightarrow> Inl e | Inr vx \<Rightarrow>
      case cast parse Float64 (y_col r) of Inl e \<Rightarrow> Inl e | Inr vy \<Rightarrow>
      case cast parse Float64 (z_col r) of Inl e \<Rightarrow> Inl e | Inr vz \<Rightarrow>
        Inr \<lparr>last_movement_dt = last_movement_dt r, device_name = device_name r,
             x_col = vx, y_col = vy, z_col = vz\<rparr>)"

text \<open>
  \<open>manipulators.replace({k: f"probe{v}" ...})\<close>: a serial number of the registry becomes
  its probe name, any other value stays as it is.
\<close>

definition replace_probe :: "string \<Rightarrow> string" where
  "replace_probe s = (case SERIAL_NUM_TO_PROBE_LETTER s of None \<Rightarrow> s | Some v \<Rightarrow> ''probe'' @ v)"

text \<open>The body of the loop that corrects the z values.\<close>

definition correct_z :: "bool \<Rightarrow> rat Row \<Rightarrow> error + rat Row" where
  "correct_z z_inverted r =
     (if z_inverted
      then (case get_z_travel (device_name r) of
              Inl e \<Rightarrow> Inl e
            | Inr travel \<Rightarrow> Inr (r\<lparr>z_col := of_int travel - z_col r\<rparr>))
      else Inr r)"

text \<open>The two added columns: the probe name and the time of the movement relative to \<open>start\<close>.\<close>

definition add_columns :: "int \<Rightarrow> rat Row \<Rightarrow> ResolvedPosition" where
  "add_columns start r =
     \<lparr>last_movement_dt = last_movement_dt r, device_name = device_name r,
      x_col = x_col r, y_col = y_col r, z_col = z_col r,
      electrode_group_name = replace_probe (device_name r),
      last_movement_time = map_option (\<lambda>t. total_seconds (t - start)) (last_movement_dt r)\<rparr>"

text \<open>
  \<open>get_newscale_coordinates\<close>, from the data frame read from the log and the parsed
  recording start time on. Each step that can raise is a case on its result, in the order
  of the source: the coverage check, the cast of the recent z values, the cast of the
  selected coordinates, the correction of z. The final sort is by the probe name; polars
  promises no order among rows of equal name, the model keeps them as they were.
\<close>

definition get_newscale_coordinates ::
  "(dtype \<Rightarrow> string \<Rightarrow> rat option) \<Rightarrow> MovementEvent list \<Rightarrow> int
     \<Rightarrow> error + ResolvedPosition list" where
  "get_newscale_coordinates parse df start =
     (if df = [] \<or> Some (date start) \<notin> set (map (map_option date \<circ> last_movement_dt) df)
      then Inl NoCoverageError
      else case try_map (cast parse Float32 \<circ> z_col) (recent_df df start) of
        Inl e \<Rightarrow> Inl e
      | Inr recent_z_values \<Rightarrow>
          (let z_inverted = is_z_inverted recent_z_values;
               selected = map strip_device_name (temporal_selection df start)
           in case try_map (cast_coordinates parse) selected of
                Inl e \<Rightarrow> Inl e
              | Inr numeric \<Rightarrow>
                  (case try_map (correct_z z_inverted) numeric of
                     Inl e \<Rightarrow> Inl e
                   | Inr corrected \<Rightarrow>
                       Inr (sort_key electrode_group_name (map (add_columns start) corrected)))))"

section \<open>Example logs\<close>

text \<open>A row of the log with a parsed timestamp; the virtual columns repeat the raw ones.\<close>

definition log_row :: "int \<Rightarrow> string \<Rightarrow> string \<Rightarrow> string \<Rightarrow> string \<Rightarrow> MovementEvent" where
  "log_row t d vx vy vz =
     \<lparr>last_movement_dt = Some t, device_name = d, x_col = vx, y_col = vy, z_col = vz,
      x_virtual = vx, y_virtual = vy, z_virtual = vz\<rparr>"

text \<open>
  The reference time of the examples: 01:00 on the second day of the epoch, in
  microseconds. The rows below are dated 00:30 and later on that day, the day before, or
  the day after.
\<close>

definition example_start :: int where
  "example_start = 90000000000"

definition unknown_device_log :: "MovementEvent list" where
  "unknown_device_log = [log_row 88200000000 '' SN99999'' '' 10'' '' 20'' '' 0'']"

definition inverted_unknown_device_log :: "MovementEvent list" where
  "inverted_unknown_device_log = [log_row 88200000000 '' SN99999'' '' 10'' '' 20'' '' 15000'']"

definition whitespace_variant_log :: "MovementEvent list" where
  "whitespace_variant_log =
     [log_row 88200000000 '' SN32148'' '' 1'' '' 2'' '' 0'',
      log_row 88300000000 ''SN32148'' ''3'' ''4'' ''0'']"

definition shared_letter_log :: "MovementEvent list" where
  "shared_letter_log =
     [log_row 88200000000 '' SN32148'' '' 1'' '' 2'' '' 0'',
      log_row 88300000000 '' SN40911'' '' 3'' '' 4'' '' 0'']"

definition yesterday_log :: "MovementEvent list" where
  "yesterday_log = [log_row 3600000000 '' SN40911'' '' 1'' '' 2'' '' 0'']"

definition three_day_log :: "MovementEvent list" where
  "three_day_log =
     [log_row 3600000000 '' SN40911'' '' 1'' '' 2'' '' 0'',
      log_row 88200000000 '' SN40911'' '' 3'' '' 4'' '' 0'',
      log_row 172800000000 '' SN40911'' '' 5'' '' 6'' '' 0'']"

text \<open>
  The recent window as the specification words it: the events dated from the day before
  the reference date (included) up to the reference date, none beyond it.
\<close>

definition spec_recent_window :: "MovementEvent list \<Rightarrow> int \<Rightarrow> MovementEvent list" where
  "spec_recent_window df start =
     filter (\<lambda>e. case last_movement_dt e of
                   None \<Rightarrow> False
                 | Some t \<Rightarrow> date start - 1 \<le> date t \<and> date t \<le> date start) df"

text \<open>
  Six manipulators of one rig, each logged retracted at the inverted limit; the first one
  is then lowered, and the second moves again only after the reference time.
\<close>

definition six_probe_log :: "MovementEvent list" where
  "six_probe_log =
     [log_row 86500000000 '' SN40911'' '' 6278'' '' 5000'' '' 15000'',
      log_row 86600000000 '' SN40900'' '' 6943'' '' 5100'' '' 15000'',
      log_row 86700000000 '' SN40912'' '' 7451'' '' 5200'' '' 15000'',
      log_row 86800000000 '' SN40913'' '' 4709'' '' 5300'' '' 15000'',
      log_row 86900000000 '' SN40914'' '' 4657'' '' 5400'' '' 15000'',
      log_row 87000000000 '' SN40910'' '' 5570'' '' 5500'' '' 15000'',
      log_row 88200000000 '' SN40911'' '' 6278'' '' 5000'' '' 3920'',
      log_row 93600000000 '' SN40900'' '' 6943'' '' 5100'' '' 0'']"

definition six_probe_positions :: "ResolvedPosition list" where
  "six_probe_positions =
     [\<lparr>last_movement_dt = Some 88200000000, device_name = ''SN40911'',
       x_col = 6278, y_col = 5000, z_col = 11080,
       electrode_group_name = ''probeA'', last_movement_time = Some (- 1800)\<rparr>,
      \<lparr>last_movement_dt = Some 86600000000, device_name = ''SN40900'',
       x_col = 6943, y_col = 5100, z_col = 0,
       electrode_group_name = ''probeB'', last_movement_time = Some (- 3400)\<rparr>,
      \<lparr>last_movement_dt = Some 86700000000, device_name = ''SN40912'',
       x_col = 7451, y_col = 5200, z_col = 0,
       electrode_group_name = ''probeC'', last_movement_time = Some (- 3300)\<rparr>,
      \<lparr>last_movement_dt = Some 86800000000, device_name = ''SN40913'',
       x_col = 4709, y_col = 5300, z_col = 0,
       electrode_group_name = ''probeD'', last_movement_time = Some (- 3200)\<rparr>,
      \<lparr>last_movement_dt = Some 86900000000, device_name = ''SN40914'',
       x_col = 4657, y_col = 5400, z_col = 0,
       electrode_group_name = ''probeE'', last_movement_time = Some (- 3100)\<rparr>,
      \<lparr>last_movement_dt = Some 87000000000, device_name = ''SN40910'',
       x_col = 5570, y_col = 5500, z_col = 0,
       electrode_group_name = ''probeF'', last_movement_time = Some (- 3000)\<rparr>]"

definition whitespace_variant_positions :: "ResolvedPosition list" where
  "whitespace_variant_positions =
     [\<lparr>last_movement_dt = Some 88300000000, device_name = ''SN32148'',
       x_col = 3, y_col = 4, z_col = 0,
       electrode_group_name = ''probeA'', last_movement_time = Some (- 1700)\<rparr>,
      \<lparr>last_movement_dt = Some 88200000000, device_name = ''SN32148'',
       x_col = 1, y_col = 2, z_col = 0,
       electrode_group_name = ''probeA'', last_movement_time = Some (- 1800)\<rparr>]"

section \<open>Properties of the registry and the detector\<close>

subsection \<open>Rounding and counting\<close>

lemma rint_cases:
  "(of_int (rint q) :: rat) = of_int \<lfloor>q\<rfloor> \<and> q - of_int \<lfloor>q\<rfloor> \<le> 1 / 2
   \<or> (of_int (rint q) :: rat) = of_int \<lfloor>q\<rfloor> + 1 \<and> 1 / 2 \<le> q - of_int \<lfloor>q\<rfloor>"
  by (auto simp: rint_def Let_def)

lemma rint_nearest: "\<bar>of_int (rint q) - q\<bar> \<le> \<bar>of_int k - q\<bar>"
proof -
  have fl: "of_int \<lfloor>q\<rfloor> \<le> q" "q < of_int \<lfloor>q\<rfloor> + 1"
    by linarith+
  consider "k \<le> \<lfloor>q\<rfloor>" | "\<lfloor>q\<rfloor> + 1 \<le> k"
    by linarith
  then show ?thesis
  proof cases
    case 1
    then have "(of_int k :: rat) \<le> of_int \<lfloor>q\<rfloor>"
      by (simp only: of_int_le_iff)
    with fl rint_cases [of q] show ?thesis
      by linarith
  next
    case 2
    then have "(of_int \<lfloor>q\<rfloor> :: rat) + 1 \<le> of_int k"
      by (metis of_int_1 of_int_add of_int_le_iff)
    with fl rint_cases [of q] show ?thesis
      by linarith
  qed
qed

lemma np_round_hundreds: "np_round v (- 2) = of_int (100 * rint (v / 100))"
  unfolding np_round_def by simp

lemma scaled_distance: "\<bar>rat_of_int (100 * k) - v\<bar> = 100 * \<bar>of_int k - v / 100\<bar>"
proof -
  have "rat_of_int (100 * k) - v = 100 * (of_int k - v / 100)"
    by (simp add: algebra_simps)
  moreover have "\<bar>100 * (rat_of_int k - v / 100)\<bar> = \<bar>100\<bar> * \<bar>of_int k - v / 100\<bar>"
    by (rule abs_mult)
  moreover have "\<bar>100 :: rat\<bar> = 100"
    by simp
  ultimately show ?thesis
    by (simp only:)
qed

lemma np_round_nearest_hundred: "\<bar>np_round v (- 2) - v\<bar> \<le> \<bar>of_int (100 * k) - v\<bar>"
proof -
  have h: "\<bar>of_int (rint (v / 100)) - v / 100\<bar> \<le> \<bar>rat_of_int k - v / 100\<bar>"
    by (rule rint_nearest)
  from h have "100 * \<bar>of_int (rint (v / 100)) - v / 100\<bar> \<le> 100 * \<bar>rat_of_int k - v / 100\<bar>"
    by (intro mult_left_mono) simp_all
  then have "\<bar>rat_of_int (100 * rint (v / 100)) - v\<bar> \<le> \<bar>rat_of_int (100 * k) - v\<bar>"
    by (simp only: scaled_distance)
  then show ?thesis
    by (simp only: np_round_hundreds)
qed

lemma is_z_inverted_counts:
  "is_z_inverted zs =
     (let r = map (\<lambda>v. np_round v (- 2)) zs;
          limit = (if 15000 \<in> set r then 15000 else 6000)
      in count_list r 0 < count_list r limit)"
proof (cases "15000 \<in> set (map (\<lambda>v. np_round v (- 2)) zs)")
  case True
  then have "count_list (map (\<lambda>v. np_round v (- 2)) zs) 15000 \<noteq> 0"
    by (simp only: count_list_0_iff) simp
  with True show ?thesis
    unfolding is_z_inverted_def Counter_def Let_def LONG_TRAVEL_RANGE_def SHORT_TRAVEL_RANGE_def
    by (simp only: of_int_numeral if_True simp_thms)
next
  case False
  then have "count_list (map (\<lambda>v. np_round v (- 2)) zs) 15000 = 0"
    by (simp only: count_list_0_iff) simp
  with False show ?thesis
    unfolding is_z_inverted_def Counter_def Let_def LONG_TRAVEL_RANGE_def SHORT_TRAVEL_RANGE_def
    by (simp only: of_int_numeral if_False simp_thms)
qed

section \<open>Properties of the resolver\<close>

subsection \<open>Selection of the last movement per device\<close>

lemma truncate_fields:
  "last_movement_dt (Row.truncate e) = last_movement_dt e"
  "device_name (Row.truncate e) = device_name e"
  "x_col (Row.truncate e) = x_col e"
  "y_col (Row.truncate e) = y_col e"
  "z_col (Row.truncate e) = z_col e"
  by (simp_all add: Row.truncate_def)

lemma latest_greatest:
  assumes "g \<noteq> []"
  shows "latest g \<in> set g"
    and "\<forall>r'\<in>set g. last_movement_dt r' \<le> last_movement_dt (latest g)"
proof -
  let ?P = "\<lambda>r. list_all (\<lambda>r'. last_movement_dt r' \<le> last_movement_dt r) g"
  from assms have "Max (last_movement_dt ` set g) \<in> last_movement_dt ` set g"
    by (intro Max_in) simp_all
  then obtain m where m: "m \<in> set g" "last_movement_dt m = Max (last_movement_dt ` set g)"
    by auto
  have "\<forall>r'\<in>set g. last_movement_dt r' \<le> last_movement_dt m"
    unfolding m(2) by (intro ballI Max_ge) simp_all
  with m(1) have "m \<in> set (filter ?P g)"
    by (simp add: list_all_iff)
  then have "filter ?P g \<noteq> []"
    by (metis empty_iff list.set(1))
  then have "hd (filter ?P g) \<in> set (filter ?P g)"
    by (rule hd_in_set)
  then have "latest g \<in> set g" and "?P (latest g)"
    unfolding latest_def by simp_all
  then show "latest g \<in> set g"
    and "\<forall>r'\<in>set g. last_movement_dt r' \<le> last_movement_dt (latest g)"
    by (simp_all add: list_all_iff)
qed

lemma last_moved_member:
  assumes "r \<in> set (last_moved rows)"
  shows "r \<in> set rows"
    and "\<forall>r'\<in>set rows. device_name r' = device_name r \<longrightarrow> last_movement_dt r' \<le> last_movement_dt r"
proof -
  from assms obtain k where k: "k \<in> set (map device_name rows)"
    and r: "r = latest (filter (\<lambda>r. device_name r = k) rows)"
    by (auto simp: last_moved_def)
  let ?g = "filter (\<lambda>r. device_name r = k) rows"
  from k have ne: "?g \<noteq> []"
    by (auto simp: filter_empty_conv)
  from latest_greatest(1) [OF ne] r have rg: "r \<in> set ?g"
    by simp
  then show "r \<in> set rows"
    by simp
  from rg have name: "device_name r = k"
    by simp
  show "\<forall>r'\<in>set rows. device_name r' = device_name r \<longrightarrow> last_movement_dt r' \<le> last_movement_dt r"
  proof (intro ballI impI)
    fix r' assume "r' \<in> set rows" "device_name r' = device_name r"
    with name have "r' \<in> set ?g"
      by simp
    with latest_greatest(2) [OF ne] show "last_movement_dt r' \<le> last_movement_dt r"
      unfolding r by blast
  qed
qed

lemma length_last_moved: "length (last_moved rows) = card (device_name ` set rows)"
  by (simp add: last_moved_def length_remdups_card_conv)

lemma set_top_k: "set (top_k k rows) \<subseteq> set rows"
proof -
  have "set (top_k k rows) \<subseteq> set (rev (sort_key last_movement_dt rows))"
    unfolding top_k_def by (rule set_take_subset)
  then show ?thesis
    by simp
qed

lemma length_top_k: "length (top_k k rows) = min k (length rows)"
  by (simp add: top_k_def min.commute)

lemma temporal_selection_member:
  assumes "r \<in> set (temporal_selection df start)"
  shows "\<exists>e\<in>set df. moved_before start e \<and> r = Row.truncate e
           \<and> (\<forall>e'\<in>set df. moved_before start e' \<and> device_name e' = device_name e
                 \<longrightarrow> last_movement_dt e' \<le> last_movement_dt e)"
proof -
  let ?q = "map Row.truncate (filter (moved_before start) df)"
  from assms set_top_k have r: "r \<in> set (last_moved ?q)"
    unfolding temporal_selection_def by blast
  from last_moved_member(1) [OF r] obtain e where e: "e \<in> set df" "moved_before start e" "r = Row.truncate e"
    by auto
  have "last_movement_dt e' \<le> last_movement_dt e"
    if "e' \<in> set df" "moved_before start e'" "device_name e' = device_name e" for e'
  proof -
    from that have "Row.truncate e' \<in> set ?q"
      by simp
    moreover from that e have "device_name (Row.truncate e') = device_name r"
      by (simp add: truncate_fields)
    ultimately have "last_movement_dt (Row.truncate e') \<le> last_movement_dt r"
      using last_moved_member(2) [OF r] by blast
    with e show ?thesis
      by (simp add: truncate_fields)
  qed
  with e show ?thesis
    by blast
qed

lemma length_temporal_selection:
  "length (temporal_selection df start)
     = min 6 (card (device_name ` {e \<in> set df. moved_before start e}))"
proof -
  have "device_name ` set (map Row.truncate (filter (moved_before start) df))
          = device_name ` {e \<in> set df. moved_before start e}"
    by (auto simp: truncate_fields image_iff)
  then show ?thesis
    by (simp add: temporal_selection_def length_top_k length_last_moved)
qed

subsection \<open>Stages that can fail\<close>

lemma try_map_length: "try_map f xs = Inr ys \<Longrightarrow> length ys = length xs"
  by (induction xs arbitrary: ys) (auto split: sum.splits)

lemma try_map_member: "try_map f xs = Inr ys \<Longrightarrow> y \<in> set ys \<Longrightarrow> \<exists>x\<in>set xs. f x = Inr y"
  by (induction xs arbitrary: ys) (auto split: sum.splits)

lemma try_map_Inl: "try_map f xs = Inl e \<Longrightarrow> \<exists>x\<in>set xs. f x = Inl e"
  by (induction xs) (auto split: sum.splits)

lemma try_map_defined: "try_map f xs = Inr ys \<Longrightarrow> x \<in> set xs \<Longrightarrow> \<exists>y. f x = Inr y"
  by (induction xs arbitrary: ys) (auto split: sum.splits)

lemma moved_before_iff: "moved_before start e \<longleftrightarrow> (\<exists>t. last_movement_dt e = Some t \<and> t < start)"
  by (simp add: moved_before_def split: option.splits)

lemma cast_Inl: "cast parse dt s = Inl e \<Longrightarrow> e = MalformedLogError"
  by (auto simp: cast_def split: option.splits)

lemma cast_coordinates_Inl: "cast_coordinates parse r = Inl e \<Longrightarrow> e = MalformedLogError"
  by (auto simp: cast_coordinates_def split: sum.splits dest: cast_Inl)

lemma cast_coordinates_Inr:
  "cast_coordinates parse r = Inr n \<Longrightarrow>
     last_movement_dt n = last_movement_dt r \<and> device_name n = device_name r"
  by (auto simp: cast_coordinates_def split: sum.splits)

lemma get_z_travel_Inl: "get_z_travel s = Inl e \<Longrightarrow> e = UnknownDeviceError"
  by (auto simp: get_z_travel_def split: if_splits)

lemma correct_z_Inl:
  "correct_z b n = Inl e \<Longrightarrow> e = UnknownDeviceError \<and> b \<and> device_name n \<notin> dom SERIAL_NUM_TO_PROBE_LETTER"
  by (auto simp: correct_z_def get_z_travel_def split: if_splits sum.splits)

lemma correct_z_unknown:
  "b \<Longrightarrow> device_name n \<notin> dom SERIAL_NUM_TO_PROBE_LETTER \<Longrightarrow> correct_z b n = Inl UnknownDeviceError"
  by (simp add: correct_z_def get_z_travel_def)

lemma correct_z_Inr:
  "correct_z b n = Inr c \<Longrightarrow>
     last_movement_dt c = last_movement_dt n \<and> device_name c = device_name n"
  by (auto simp: correct_z_def split: if_splits sum.splits)

lemma get_newscale_coordinates_covered:
  "covered df start \<Longrightarrow>
   get_newscale_coordinates parse df start =
     (case try_map (cast parse Float32 \<circ> z_col) (recent_df df start) of
        Inl e \<Rightarrow> Inl e
      | Inr recent_z_values \<Rightarrow>
          (case try_map (cast_coordinates parse) (map strip_device_name (temporal_selection df start)) of
             Inl e \<Rightarrow> Inl e
           | Inr numeric \<Rightarrow>
               (case try_map (correct_z (is_z_inverted recent_z_values)) numeric of
                  Inl e \<Rightarrow> Inl e
                | Inr corrected \<Rightarrow>
                    Inr (sort_key electrode_group_name (map (add_columns start) corrected)))))"
  unfolding get_newscale_coordinates_def covered_def Let_def by (simp only: if_False)

lemma get_newscale_coordinates_not_covered:
  "\<not> covered df start \<Longrightarrow> get_newscale_coordinates parse df start = Inl NoCoverageError"
  unfolding get_newscale_coordinates_def covered_def by (simp only: if_True not_not)

lemma get_newscale_coordinates_Inr:
  assumes "get_newscale_coordinates parse df start = Inr out"
  obtains zs numeric corrected where
    "covered df start"
    "try_map (cast parse Float32 \<circ> z_col) (recent_df df start) = Inr zs"
    "try_map (cast_coordinates parse) (map strip_device_name (temporal_selection df start)) = Inr numeric"
    "try_map (correct_z (is_z_inverted zs)) numeric = Inr corrected"
    "out = sort_key electrode_group_name (map (add_columns start) corrected)"
proof -
  have c: "covered df start"
    using assms get_newscale_coordinates_not_covered [of df start parse] by auto
  note eq1 = assms [unfolded get_newscale_coordinates_covered [OF c]]
  obtain zs where zs: "try_map (cast parse Float32 \<circ> z_col) (recent_df df start) = Inr zs"
    using eq1 by (cases "try_map (cast parse Float32 \<circ> z_col) (recent_df df start)") simp_all
  note eq2 = eq1 [unfolded zs sum.case]
  obtain numeric where numeric:
    "try_map (cast_coordinates parse) (map strip_device_name (temporal_selection df start)) = Inr numeric"
    using eq2
    by (cases "try_map (cast_coordinates parse) (map strip_device_name (temporal_selection df start))")
      simp_all
  note eq3 = eq2 [unfolded numeric sum.case]
  obtain corrected where corrected: "try_map (correct_z (is_z_inverted zs)) numeric = Inr corrected"
    using eq3 by (cases "try_map (correct_z (is_z_inverted zs)) numeric") simp_all
  from eq3 have "out = sort_key electrode_group_name (map (add_columns start) corrected)"
    unfolding corrected sum.case by simp
  with c zs numeric corrected show thesis
    by (rule that)
qed

lemma try_map_image: "try_map f xs = Inr ys \<Longrightarrow> x \<in> set xs \<Longrightarrow> \<exists>y\<in>set ys. f x = Inr y"
  by (induction xs arbitrary: ys) (auto split: sum.splits)

lemma add_columns_fields:
  "last_movement_dt (add_columns start c) = last_movement_dt c"
  "device_name (add_columns start c) = device_name c"
  "electrode_group_name (add_columns start c) = replace_probe (device_name c)"
  "last_movement_time (add_columns start c)
     = map_option (\<lambda>t. total_seconds (t - start)) (last_movement_dt c)"
  by (simp_all add: add_columns_def)

lemma strip_device_name_fields:
  "last_movement_dt (strip_device_name s) = last_movement_dt s"
  "device_name (strip_device_name s) = strip_chars (device_name s)"
  by (simp_all add: strip_device_name_def)

lemma output_row_origin:
  assumes res: "get_newscale_coordinates parse df start = Inr out" and r: "r \<in> set out"
  shows "\<exists>s\<in>set (temporal_selection df start).
           last_movement_dt r = last_movement_dt s
           \<and> device_name r = strip_chars (device_name s)
           \<and> electrode_group_name r = replace_probe (strip_chars (device_name s))
           \<and> last_movement_time r
               = map_option (\<lambda>t. total_seconds (t - start)) (last_movement_dt s)"
proof -
  from res obtain zs numeric corrected where
    numeric: "try_map (cast_coordinates parse) (map strip_device_name (temporal_selection df start)) = Inr numeric"
    and corrected: "try_map (correct_z (is_z_inverted zs)) numeric = Inr corrected"
    and out: "out = sort_key electrode_group_name (map (add_columns start) corrected)"
    by (rule get_newscale_coordinates_Inr)
  from r out obtain c where c: "c \<in> set corrected" "r = add_columns start c"
    by auto
  from try_map_member [OF corrected c(1)] obtain n
    where n: "n \<in> set numeric" "correct_z (is_z_inverted zs) n = Inr c"
    by blast
  from try_map_member [OF numeric n(1)] obtain s
    where s: "s \<in> set (temporal_selection df start)" "cast_coordinates parse (strip_device_name s) = Inr n"
    by auto
  from correct_z_Inr [OF n(2)] cast_coordinates_Inr [OF s(2)]
  have "last_movement_dt c = last_movement_dt s" "device_name c = strip_chars (device_name s)"
    by (simp_all add: strip_device_name_fields)
  with c(2) s(1) show ?thesis
    by (auto simp: add_columns_fields)
qed

lemma output_length:
  assumes res: "get_newscale_coordinates parse df start = Inr out"
  shows "length out = length (temporal_selection df start)"
proof -
  from res obtain zs numeric corrected where
    numeric: "try_map (cast_coordinates parse) (map strip_device_name (temporal_selection df start)) = Inr numeric"
    and corrected: "try_map (correct_z (is_z_inverted zs)) numeric = Inr corrected"
    and out: "out = sort_key electrode_group_name (map (add_columns start) corrected)"
    by (rule get_newscale_coordinates_Inr)
  from try_map_length [OF numeric] try_map_length [OF corrected] out show ?thesis
    by simp
qed

lemma total_seconds_nonpos: "d < 0 \<Longrightarrow> total_seconds d \<le> 0"
proof -
  assume "d < 0"
  then have "sgn d = - 1" and "0 \<le> \<bar>d\<bar> div 1000000"
    by simp_all
  then show ?thesis
    by (simp add: total_seconds_def)
qed

lemma date_matches:
  "Some (date start) = map_option date (last_movement_dt e)
     \<longleftrightarrow> (\<exists>t. last_movement_dt e = Some t \<and> date t = date start)"
  by (cases "last_movement_dt e") auto

lemma covered_iff:
  "covered df start \<longleftrightarrow>
     df \<noteq> [] \<and> (\<exists>e\<in>set df. \<exists>t. last_movement_dt e = Some t \<and> date t = date start)"
  by (simp add: covered_def image_iff date_matches)

lemma get_newscale_coordinates_NoCoverageError:
  "get_newscale_coordinates parse df start = Inl NoCoverageError \<longleftrightarrow> \<not> covered df start"
proof
  assume res: "get_newscale_coordinates parse df start = Inl NoCoverageError"
  show "\<not> covered df start"
  proof
    assume c: "covered df start"
    note eq1 = res [unfolded get_newscale_coordinates_covered [OF c]]
    show False
    proof (cases "try_map (cast parse Float32 \<circ> z_col) (recent_df df start)")
      case (Inl e)
      with eq1 have "e = NoCoverageError"
        by simp
      with try_map_Inl [OF Inl] cast_Inl show False
        by fastforce
    next
      case zs: (Inr zs)
      note eq2 = eq1 [unfolded zs sum.case]
      show False
      proof (cases "try_map (cast_coordinates parse) (map strip_device_name (temporal_selection df start))")
        case (Inl e)
        with eq2 have "e = NoCoverageError"
          by simp
        with try_map_Inl [OF Inl] cast_coordinates_Inl show False
          by fastforce
      next
        case numeric: (Inr numeric)
        note eq3 = eq2 [unfolded numeric sum.case]
        show False
        proof (cases "try_map (correct_z (is_z_inverted zs)) numeric")
          case (Inl e)
          with eq3 have "e = NoCoverageError"
            by simp
          with try_map_Inl [OF Inl] correct_z_Inl show False
            by fastforce
        next
          case (Inr corrected)
          with eq3 show False
            by simp
        qed
      qed
    qed
  qed
next
  assume "\<not> covered df start"
  then show "get_newscale_coordinates parse df start = Inl NoCoverageError"
    by (rule get_newscale_coordinates_not_covered)
qed

lemma recent_df_nonempty: "covered df start \<Longrightarrow> recent_df df start \<noteq> []"
proof -
  assume "covered df start"
  then obtain e t where e: "e \<in> set df" "last_movement_dt e = Some t" "date t = date start"
    unfolding covered_iff by blast
  then have "e \<in> set (recent_df df start)"
    by (simp add: recent_df_def)
  then show ?thesis
    by auto
qed

lemma six_probe_run:
  "get_newscale_coordinates parse_digits six_probe_log example_start = Inr six_probe_positions"
  by code_simp

lemma whitespace_variant_run:
  "get_newscale_coordinates parse_digits whitespace_variant_log example_start
     = Inr whitespace_variant_positions"
  by code_simp

lemma recent_df_from_reference_date_on:
  "recent_df df start = filter (\<lambda>e. \<exists>t. last_movement_dt e = Some t \<and> date start \<le> date t) df"
  unfolding recent_df_def by (rule filter_cong) (auto split: option.splits)

lemma row_count_by_raw_device_name:
  assumes "get_newscale_coordinates parse df start = Inr out"
  shows "length out
     = min 6 (card (device_name ` {e \<in> set df. \<exists>t. last_movement_dt e = Some t \<and> t < start}))"
proof -
  have "length out = min 6 (card (device_name ` {e \<in> set df. moved_before start e}))"
    by (simp only: output_length [OF assms] length_temporal_selection)
  then show ?thesis
    by (simp only: moved_before_iff)
qed

text \<open>
  With a true inversion flag every selected device is looked up by \<open>get_z_travel\<close>, and
  an identifier outside the registry raises.
\<close>

lemma unknown_device_raises_when_inverted:
  assumes c: "covered df start"
    and zs: "try_map (cast parse Float32 \<circ> z_col) (recent_df df start) = Inr zs"
    and inv: "is_z_inverted zs"
    and numeric: "try_map (cast_coordinates parse) (map strip_device_name (temporal_selection df start)) = Inr numeric"
    and unknown: "\<exists>s\<in>set (temporal_selection df start).
                    strip_chars (device_name s) \<notin> dom SERIAL_NUM_TO_PROBE_LETTER"
  shows "get_newscale_coordinates parse df start = Inl UnknownDeviceError"
proof -
  from unknown obtain s where s: "s \<in> set (temporal_selection df start)"
    "strip_chars (device_name s) \<notin> dom SERIAL_NUM_TO_PROBE_LETTER"
    by blast
  from s(1) have "strip_device_name s \<in> set (map strip_device_name (temporal_selection df start))"
    by simp
  from try_map_image [OF numeric this] obtain n
    where n: "n \<in> set numeric" "cast_coordinates parse (strip_device_name s) = Inr n"
    by blast
  from cast_coordinates_Inr [OF n(2)] s(2) have "device_name n \<notin> dom SERIAL_NUM_TO_PROBE_LETTER"
    by (simp add: strip_device_name_fields)
  with inv have fail: "correct_z (is_z_inverted zs) n = Inl UnknownDeviceError"
    by (rule correct_z_unknown)
  have eq: "get_newscale_coordinates parse df start
              = (case try_map (correct_z (is_z_inverted zs)) numeric of
                   Inl e \<Rightarrow> Inl e
                 | Inr corrected \<Rightarrow>
                     Inr (sort_key electrode_group_name (map (add_columns start) corrected)))"
    unfolding get_newscale_coordinates_covered [OF c] zs numeric sum.case ..
  show ?thesis
  proof (cases "try_map (correct_z (is_z_inverted zs)) numeric")
    case (Inl e)
    from try_map_Inl [OF Inl] correct_z_Inl have "e = UnknownDeviceError"
      by blast
    with Inl eq show ?thesis
      by simp
  next
    case (Inr corrected)
    from try_map_defined [OF Inr n(1)] fail show ?thesis
      by simp
  qed
qed

section \<open>The claims\<close>

subsection \<open>Device registry and detector\<close>

text \<open>
  Claim C7. \<open>get_z_travel\<close> returns 6000 for \<open>SN32144\<close> and 15000 for \<open>SN40911\<close>, and
  raises the unknown-device error for \<open>unknown-id\<close> and for every other identifier that is
  not a key of the registry; for a key of the registry the result is 6000 when the key is
  in the short-travel set and 15000 otherwise.
\<close>

theorem get_z_travel_spec:
  "get_z_travel ''SN32144'' = Inr 6000
   \<and> get_z_travel ''SN40911'' = Inr 15000
   \<and> get_z_travel ''unknown-id'' = Inl UnknownDeviceError
   \<and> (s \<notin> dom SERIAL_NUM_TO_PROBE_LETTER \<longrightarrow> get_z_travel s = Inl UnknownDeviceError)
   \<and> (s \<in> dom SERIAL_NUM_TO_PROBE_LETTER \<longrightarrow>
        get_z_travel s = Inr (if s \<in> SHORT_TRAVEL_SERIAL_NUMBERS then 6000 else 15000))"
proof -
  have "get_z_travel ''SN32144'' = Inr 6000"
    by code_simp
  moreover have "get_z_travel ''SN40911'' = Inr 15000"
    by code_simp
  moreover have "get_z_travel ''unknown-id'' = Inl UnknownDeviceError"
    by code_simp
  moreover have "s \<notin> dom SERIAL_NUM_TO_PROBE_LETTER \<longrightarrow> get_z_travel s = Inl UnknownDeviceError"
    by (simp add: get_z_travel_def)
  moreover have "s \<in> dom SERIAL_NUM_TO_PROBE_LETTER \<longrightarrow>
      get_z_travel s = Inr (if s \<in> SHORT_TRAVEL_SERIAL_NUMBERS then 6000 else 15000)"
    by (simp add: get_z_travel_def SHORT_TRAVEL_RANGE_def LONG_TRAVEL_RANGE_def)
  ultimately show ?thesis
    by (intro conjI)
qed

text \<open>
  Witness for C7: \<open>SN24272\<close> is a key of the registry outside the short-travel set, and
  \<open>SN00000\<close> is not a key.
\<close>

theorem get_z_travel_spec_witness:
  "''SN24272'' \<in> dom SERIAL_NUM_TO_PROBE_LETTER
   \<and> get_z_travel ''SN24272'' = Inr 15000
   \<and> ''SN00000'' \<notin> dom SERIAL_NUM_TO_PROBE_LETTER
   \<and> get_z_travel ''SN00000'' = Inl UnknownDeviceError"
proof -
  have known: "''SN24272'' \<in> dom SERIAL_NUM_TO_PROBE_LETTER"
    by code_simp
  have long: "''SN24272'' \<notin> SHORT_TRAVEL_SERIAL_NUMBERS"
    by code_simp
  have unknown: "''SN00000'' \<notin> dom SERIAL_NUM_TO_PROBE_LETTER"
    by code_simp
  from get_z_travel_spec [of "''SN24272''"] known long
  have "get_z_travel ''SN24272'' = Inr 15000"
    by simp
  moreover from get_z_travel_spec [of "''SN00000''"] unknown
  have "get_z_travel ''SN00000'' = Inl UnknownDeviceError"
    by simp
  ultimately show ?thesis
    using known unknown by (intro conjI)
qed

text \<open>
  Claim C3. \<open>is_z_inverted\<close> rounds every reading to a multiple of 100 that is at least
  as near to it as any other multiple of 100; the limit is 15000 when 15000 is among the
  rounded values and 6000 otherwise; the result is true exactly when the rounded values
  hold the limit more often than 0. The two examples of the docstring evaluate to false
  and to true.
\<close>

theorem is_z_inverted_spec:
  "(\<exists>m::int. np_round v (- 2) = of_int (100 * m))
   \<and> (\<forall>k::int. \<bar>np_round v (- 2) - v\<bar> \<le> \<bar>of_int (100 * k) - v\<bar>)
   \<and> is_z_inverted zs =
       (let r = map (\<lambda>v. np_round v (- 2)) zs;
            limit = (if 15000 \<in> set r then 15000 else 6000)
        in count_list r 0 < count_list r limit)
   \<and> is_z_inverted [0, 3000, 3000, 0] = False
   \<and> is_z_inverted [15000, 3000, 3000, 15000] = True"
proof -
  have "\<exists>m::int. np_round v (- 2) = of_int (100 * m)"
    unfolding np_round_hundreds by (rule exI) (rule refl)
  moreover have "\<forall>k::int. \<bar>np_round v (- 2) - v\<bar> \<le> \<bar>of_int (100 * k) - v\<bar>"
    by (rule allI) (rule np_round_nearest_hundred)
  moreover note is_z_inverted_counts [of zs]
  moreover have "is_z_inverted [0, 3000, 3000, 0] = False"
    by code_simp
  moreover have "is_z_inverted [15000, 3000, 3000, 15000] = True"
    by code_simp
  ultimately show ?thesis
    by (intro conjI)
qed

text \<open>
  Claim C10, as amended. On an empty collection of readings \<open>is_z_inverted\<close> returns
  false: the counts of 0, of 6000 and of 15000 are all 0 and the comparison of 0 with 0
  is not strict. Inside \<open>get_newscale_coordinates\<close> the detector never receives an empty
  sample: a log without a row in the recent window has no row on the reference date
  either, and the coverage check raises the no-coverage error before the detector runs.
\<close>

theorem empty_sample_stops_at_coverage_check:
  "is_z_inverted [] = False
   \<and> Counter (map (\<lambda>v. np_round v (- 2)) []) 0 = 0
   \<and> Counter (map (\<lambda>v. np_round v (- 2)) []) (of_int SHORT_TRAVEL_RANGE) = 0
   \<and> Counter (map (\<lambda>v. np_round v (- 2)) []) (of_int LONG_TRAVEL_RANGE) = 0
   \<and> (recent_df df start = [] \<longrightarrow> get_newscale_coordinates parse df start = Inl NoCoverageError)"
proof -
  have "recent_df df start = [] \<longrightarrow> get_newscale_coordinates parse df start = Inl NoCoverageError"
  proof
    assume "recent_df df start = []"
    with recent_df_nonempty [of df start] have "\<not> covered df start"
      by blast
    then show "get_newscale_coordinates parse df start = Inl NoCoverageError"
      by (rule get_newscale_coordinates_not_covered)
  qed
  moreover have "is_z_inverted [] = False"
    by (simp add: is_z_inverted_def Counter_def)
  moreover have "Counter (map (\<lambda>v. np_round v (- 2)) []) (k :: rat) = 0" for k
    by (simp add: Counter_def)
  ultimately show ?thesis
    by (intro conjI)
qed

text \<open>
  Witness for C10: no row of the three-day log is dated on or after the sixth day of the
  epoch.
\<close>

theorem empty_sample_stops_at_coverage_check_witness:
  "recent_df three_day_log 450000000000 = []
   \<and> get_newscale_coordinates parse_digits three_day_log 450000000000 = Inl NoCoverageError"
proof -
  have empty: "recent_df three_day_log 450000000000 = []"
    by code_simp
  with empty_sample_stops_at_coverage_check
    [where df = three_day_log and start = 450000000000 and parse = parse_digits]
  show ?thesis
    by blast
qed

text \<open>
  Counterexample to C10 as stated. The only row of the log is dated the day before the
  reference date, so the recent window is empty; the outcome is the no-coverage error,
  not a flag.
\<close>

theorem empty_recent_window_counterexample:
  "map (map_option date \<circ> last_movement_dt) yesterday_log = [Some 0]
   \<and> date example_start = 1
   \<and> recent_df yesterday_log example_start = []
   \<and> get_newscale_coordinates parse_digits yesterday_log example_start = Inl NoCoverageError"
proof -
  have "map (map_option date \<circ> last_movement_dt) yesterday_log = [Some 0]"
    by code_simp
  moreover have "date example_start = 1"
    by code_simp
  moreover have "recent_df yesterday_log example_start = []"
    by code_simp
  moreover have "get_newscale_coordinates parse_digits yesterday_log example_start = Inl NoCoverageError"
    by code_simp
  ultimately show ?thesis
    by (intro conjI)
qed

subsection \<open>Coverage and the recent window\<close>

text \<open>
  Claim C6. \<open>get_newscale_coordinates\<close> raises the no-coverage error exactly when the
  log is empty or no row of the log is dated on the day of the reference time; on the
  empty log it raises that error.
\<close>

theorem no_coverage_iff:
  "(get_newscale_coordinates parse df start = Inl NoCoverageError
      \<longleftrightarrow> df = [] \<or> \<not> (\<exists>e\<in>set df. \<exists>t. last_movement_dt e = Some t \<and> date t = date start))
   \<and> get_newscale_coordinates parse [] start = Inl NoCoverageError"
proof -
  have "get_newscale_coordinates parse [] start = Inl NoCoverageError"
    by (simp add: get_newscale_coordinates_def)
  then show ?thesis
    by (simp only: get_newscale_coordinates_NoCoverageError covered_iff de_Morgan_conj not_not simp_thms)
qed

text \<open>
  Witness for C6: the three-day log has no row on the sixth day of the epoch, and a
  reference time on that day is refused.
\<close>

theorem no_coverage_iff_witness:
  "\<not> (\<exists>e\<in>set three_day_log. \<exists>t. last_movement_dt e = Some t \<and> date t = date 450000000000)
   \<and> get_newscale_coordinates parse_digits three_day_log 450000000000 = Inl NoCoverageError"
proof -
  have none: "\<not> (\<exists>e\<in>set three_day_log. \<exists>t. last_movement_dt e = Some t \<and> date t = date 450000000000)"
    by (simp add: three_day_log_def log_row_def date_def)
  with no_coverage_iff [of parse_digits three_day_log 450000000000] show ?thesis
    by blast
qed

text \<open>
  Claim C4, as amended. The sample given to the detector consists of the z values,
  stripped and read as single-precision numbers, of exactly the rows whose timestamp is
  not null and whose date is the reference date or a later one: the comparison with the
  day before the reference date is strict and there is no upper bound. The flag that
  decides the correction of z is the answer of \<open>is_z_inverted\<close> on this sample.
\<close>

theorem detector_sample_from_reference_date_on:
  "get_newscale_coordinates parse df start =
     (if \<not> covered df start then Inl NoCoverageError
      else case try_map (cast parse Float32 \<circ> z_col)
                  (filter (\<lambda>e. \<exists>t. last_movement_dt e = Some t \<and> date start \<le> date t) df) of
        Inl e \<Rightarrow> Inl e
      | Inr sample \<Rightarrow>
          (case try_map (cast_coordinates parse)
                  (map strip_device_name (temporal_selection df start)) of
             Inl e \<Rightarrow> Inl e
           | Inr numeric \<Rightarrow>
               (case try_map (correct_z (is_z_inverted sample)) numeric of
                  Inl e \<Rightarrow> Inl e
                | Inr corrected \<Rightarrow>
                    Inr (sort_key electrode_group_name (map (add_columns start) corrected)))))"
proof (cases "covered df start")
  case True
  from get_newscale_coordinates_covered [OF True, of parse] True show ?thesis
    unfolding recent_df_from_reference_date_on by (simp only: not_True_eq_False if_False)
next
  case False
  from get_newscale_coordinates_not_covered [OF False, of parse] False show ?thesis
    by (simp only: not_False_eq_True if_True)
qed

text \<open>
  Counterexample to C4 as stated. The rows of the three-day log are dated the day before
  the reference date, the reference date and the day after. The window of the claim keeps
  the first two; \<open>recent_df\<close> keeps the last two.
\<close>

theorem recent_df_counterexample:
  "map (map_option date \<circ> last_movement_dt) three_day_log = [Some 0, Some 1, Some 2]
   \<and> date example_start = 1
   \<and> map last_movement_dt (spec_recent_window three_day_log example_start)
       = [Some 3600000000, Some 88200000000]
   \<and> map last_movement_dt (recent_df three_day_log example_start)
       = [Some 88200000000, Some 172800000000]
   \<and> recent_df three_day_log example_start \<noteq> spec_recent_window three_day_log example_start"
proof -
  have days: "map (map_option date \<circ> last_movement_dt) three_day_log = [Some 0, Some 1, Some 2]"
    by code_simp
  have day: "date example_start = 1"
    by code_simp
  have spec: "map last_movement_dt (spec_recent_window three_day_log example_start)
      = [Some 3600000000, Some 88200000000]"
    by code_simp
  have code: "map last_movement_dt (recent_df three_day_log example_start)
      = [Some 88200000000, Some 172800000000]"
    by code_simp
  from spec code have "recent_df three_day_log example_start \<noteq> spec_recent_window three_day_log example_start"
    by auto
  with days day spec code show ?thesis
    by (intro conjI)
qed

subsection \<open>The output rows\<close>

text \<open>
  Claim C9. Whenever \<open>get_newscale_coordinates\<close> returns rows, the elapsed seconds of
  every row (time of the movement minus the reference time) are at most 0.
\<close>

theorem elapsed_seconds_nonpositive:
  assumes "get_newscale_coordinates parse df start = Inr out"
  shows "\<forall>r\<in>set out. \<exists>s. last_movement_time r = Some s \<and> s \<le> 0"
proof
  fix r assume "r \<in> set out"
  from output_row_origin [OF assms this] obtain s where
    s: "s \<in> set (temporal_selection df start)"
    and time: "last_movement_time r = map_option (\<lambda>t. total_seconds (t - start)) (last_movement_dt s)"
    by blast
  from temporal_selection_member [OF s] obtain e :: MovementEvent
    where "moved_before start e" "s = Row.truncate e"
    by blast
  then obtain t where "last_movement_dt s = Some t" "t < start"
    by (auto simp: moved_before_iff truncate_fields)
  with time total_seconds_nonpos [of "t - start"] show "\<exists>s. last_movement_time r = Some s \<and> s \<le> 0"
    by simp
qed

text \<open>Witness for C9: the six-probe log, whose rows moved 1800 to 3400 seconds before.\<close>

theorem elapsed_seconds_nonpositive_witness:
  "get_newscale_coordinates parse_digits six_probe_log example_start = Inr six_probe_positions
   \<and> list_all (\<lambda>r. \<exists>s. last_movement_time r = Some s \<and> s \<le> 0) six_probe_positions"
proof -
  have run: "get_newscale_coordinates parse_digits six_probe_log example_start = Inr six_probe_positions"
    by (rule six_probe_run)
  from elapsed_seconds_nonpositive [OF run]
  have "list_all (\<lambda>r. \<exists>s. last_movement_time r = Some s \<and> s \<le> 0) six_probe_positions"
    by (simp only: list_all_iff)
  with run show ?thesis
    by (rule conjI)
qed

text \<open>
  Claim C5, as amended. Whenever \<open>get_newscale_coordinates\<close> returns rows, they are in
  ascending order of the probe name; equal names may follow each other.
\<close>

theorem rows_sorted_by_probe_name:
  assumes "get_newscale_coordinates parse df start = Inr out"
  shows "sorted (map electrode_group_name out)"
proof -
  from assms obtain zs numeric corrected where
    "out = sort_key electrode_group_name (map (add_columns start) corrected)"
    by (rule get_newscale_coordinates_Inr)
  then show ?thesis
    by (simp only: sorted_sort_key)
qed

text \<open>Witness for C5: the six-probe log gives \<open>probeA\<close> to \<open>probeF\<close> in this order.\<close>

theorem rows_sorted_by_probe_name_witness:
  "get_newscale_coordinates parse_digits six_probe_log example_start = Inr six_probe_positions
   \<and> sorted (map electrode_group_name six_probe_positions)"
proof -
  have run: "get_newscale_coordinates parse_digits six_probe_log example_start = Inr six_probe_positions"
    by (rule six_probe_run)
  from run rows_sorted_by_probe_name [OF run] show ?thesis
    by (rule conjI)
qed

text \<open>
  Counterexample to C5 as stated. \<open>SN32148\<close> and \<open>SN40911\<close> are both mapped to the
  letter A by the registry; a log in which both moved before the reference time gives two
  rows named \<open>probeA\<close>, so the names of the rows are not pairwise distinct.
\<close>

theorem probe_names_not_distinct_counterexample:
  "map_sum id (map electrode_group_name)
     (get_newscale_coordinates parse_digits shared_letter_log example_start)
     = Inr [''probeA'', ''probeA'']
   \<and> \<not> distinct [''probeA'', ''probeA'']"
proof -
  have "map_sum id (map electrode_group_name)
     (get_newscale_coordinates parse_digits shared_letter_log example_start)
     = Inr [''probeA'', ''probeA'']"
    by code_simp
  then show ?thesis
    by simp
qed

subsection \<open>Grouping by device\<close>

text \<open>
  Claim C8. Whenever \<open>get_newscale_coordinates\<close> returns rows, there are at most 6 of
  them, and at most as many as there are distinct device identifiers with a movement
  strictly before the reference time. The code exceeds the second bound on the log
  below: its two rows name one device, once with a leading space and once without, and
  both are returned.
\<close>

theorem row_count_exceeds_device_count:
  "get_newscale_coordinates parse_digits whitespace_variant_log example_start
     = Inr whitespace_variant_positions
   \<and> length whitespace_variant_positions = 2
   \<and> card ((strip_chars \<circ> device_name) `
        {e \<in> set whitespace_variant_log. \<exists>t. last_movement_dt e = Some t \<and> t < example_start}) = 1"
proof -
  have "{e \<in> set whitespace_variant_log. \<exists>t. last_movement_dt e = Some t \<and> t < example_start}
      = set (filter (moved_before example_start) whitespace_variant_log)"
    by (auto simp: moved_before_iff)
  then have "card ((strip_chars \<circ> device_name) `
        {e \<in> set whitespace_variant_log. \<exists>t. last_movement_dt e = Some t \<and> t < example_start})
      = length (remdups (map (strip_chars \<circ> device_name)
          (filter (moved_before example_start) whitespace_variant_log)))"
    by (simp only: length_remdups_card_conv set_map)
  also have "\<dots> = 1"
    by code_simp
  finally have devices: "card ((strip_chars \<circ> device_name) `
        {e \<in> set whitespace_variant_log. \<exists>t. last_movement_dt e = Some t \<and> t < example_start}) = 1" .
  have rows: "length whitespace_variant_positions = 2"
    by code_simp
  from whitespace_variant_run rows devices show ?thesis
    by (intro conjI)
qed

text \<open>
  Claim C2. The rows are restricted to those strictly before the reference time, grouped
  by device identifier with the whitespace trimmed before grouping, and the latest row of
  each group is kept. The code groups by the \<open>device_name\<close> text as it stands in the log
  and strips it afterwards: the two rows of the log below name the same device, once with
  a leading space and once without, both moved before the reference time, and both are
  returned under the same stripped identifier, where one group would give the later
  movement only.
\<close>

theorem whitespace_variants_grouped_apart:
  "map device_name whitespace_variant_log = ['' SN32148'', ''SN32148'']
   \<and> strip_chars '' SN32148'' = strip_chars ''SN32148''
   \<and> map_sum id (map (\<lambda>r. (device_name r, last_movement_dt r)))
        (get_newscale_coordinates parse_digits whitespace_variant_log example_start)
       = Inr [(''SN32148'', Some 88300000000), (''SN32148'', Some 88200000000)]"
proof -
  have "map device_name whitespace_variant_log = ['' SN32148'', ''SN32148'']"
    by code_simp
  moreover have "strip_chars '' SN32148'' = strip_chars ''SN32148''"
    by code_simp
  moreover have "map_sum id (map (\<lambda>r. (device_name r, last_movement_dt r)))
        (get_newscale_coordinates parse_digits whitespace_variant_log example_start)
       = Inr [(''SN32148'', Some 88300000000), (''SN32148'', Some 88200000000)]"
    unfolding whitespace_variant_run by code_simp
  ultimately show ?thesis
    by (intro conjI)
qed

subsection \<open>Unknown devices\<close>

text \<open>
  Claim C1. A selected device identifier that, after trimming, is not a key of the
  registry makes \<open>get_newscale_coordinates\<close> raise the unknown-device error, whatever
  the inversion flag. The code raises only when the flag is true. The two logs below
  hold one row of the unknown device \<open>SN99999\<close>: resting at 0 (flag false) it is returned
  with the identifier itself in the place of the probe name; resting at 15000 (flag
  true) it raises.
\<close>

theorem unknown_device_depends_on_flag:
  "map (strip_chars \<circ> device_name) unknown_device_log = [''SN99999'']
   \<and> ''SN99999'' \<notin> dom SERIAL_NUM_TO_PROBE_LETTER
   \<and> get_newscale_coordinates parse_digits unknown_device_log example_start
       = Inr [\<lparr>last_movement_dt = Some 88200000000, device_name = ''SN99999'',
               x_col = 10, y_col = 20, z_col = 0,
               electrode_group_name = ''SN99999'', last_movement_time = Some (- 1800)\<rparr>]
   \<and> map (strip_chars \<circ> device_name) inverted_unknown_device_log = [''SN99999'']
   \<and> get_newscale_coordinates parse_digits inverted_unknown_device_log example_start
       = Inl UnknownDeviceError"
proof -
  have "map (strip_chars \<circ> device_name) unknown_device_log = [''SN99999'']"
    by code_simp
  moreover have "''SN99999'' \<notin> dom SERIAL_NUM_TO_PROBE_LETTER"
    by code_simp
  moreover have "get_newscale_coordinates parse_digits unknown_device_log example_start
       = Inr [\<lparr>last_movement_dt = Some 88200000000, device_name = ''SN99999'',
               x_col = 10, y_col = 20, z_col = 0,
               electrode_group_name = ''SN99999'', last_movement_time = Some (- 1800)\<rparr>]"
    by code_simp
  moreover have "map (strip_chars \<circ> device_name) inverted_unknown_device_log = [''SN99999'']"
    by code_simp
  moreover have "get_newscale_coordinates parse_digits inverted_unknown_device_log example_start
       = Inl UnknownDeviceError"
    by code_simp
  ultimately show ?thesis
    by (intro conjI)
qed

end
